theory Spec2Isabelle
  imports Complex_Main
begin

section \<open>Tensors\<close>

text \<open>
  The program is a Keras model (\<^verbatim>\<open>src/model.py\<close>). Tensor values are modelled over the
  reals: rounding, overflow and not-a-number values of the floating-point types are not
  part of the model. A rank-2 tensor of shape (batch, dim) is a list of rows, an image
  of shape (height, width, channels) a list of rows of pixels, a batch of shape
  (batch, height, width, channels) a list of images.

  The element-wise operations pair the elements of two tensors of one shape, which is
  what the program applies them to; the theorems state the shapes they rely on.
  The mean of an empty tensor is not a number in TensorFlow, so the theorems about
  the steps take the hypothesis that no tensor a step averages is empty
  (\<open>step_accepts\<close> below).
\<close>

type_synonym vec = "real list"
type_synonym mat = "real list list"
type_synonym image = "real list list list"
type_synonym batch = "image list"

datatype dtype = float16 | float32

record tensor =
  dtype :: dtype
  vals :: mat

datatype error =
  ZeroDivisionError | UnboundLocalError | IndexError | InvalidArgumentError | ValueError

text \<open>\<^verbatim>\<open>tf.shape(t)[0]\<close> and \<^verbatim>\<open>tf.shape(t)[1]\<close> of a rank-2 tensor.\<close>

definition shape0 :: "mat \<Rightarrow> nat" where
  "shape0 m = length m"

definition shape1 :: "mat \<Rightarrow> nat" where
  "shape1 m = (case m of [] \<Rightarrow> 0 | r # _ \<Rightarrow> length r)"

definition has_shape :: "nat \<Rightarrow> nat \<Rightarrow> mat \<Rightarrow> bool" where
  "has_shape b d m \<longleftrightarrow> length m = b \<and> list_all (\<lambda>r. length r = d) m"

text \<open>
  The random generator: the values it yields during one call, in the order it yields
  them. \<^verbatim>\<open>random_normal(shape=(b, d))\<close> fills a tensor of that shape, row by row, in the
  default float type. That the values follow a standard normal distribution is not
  expressed.
\<close>

type_synonym draws = "nat \<Rightarrow> real"

definition random_normal :: "draws \<Rightarrow> nat \<times> nat \<Rightarrow> tensor" where
  "random_normal g shp =
     (case shp of (b, d) \<Rightarrow>
        \<lparr>dtype = float32, vals = map (\<lambda>i. map (\<lambda>j. g (i * d + j)) [0..<d]) [0..<b]\<rparr>)"

definition tf_cast :: "tensor \<Rightarrow> dtype \<Rightarrow> tensor" where
  "tf_cast t d = t\<lparr>dtype := d\<rparr>"

definition tf_exp :: "tensor \<Rightarrow> tensor" where
  "tf_exp t = t\<lparr>vals := map (map exp) (vals t)\<rparr>"

definition scalar_mul :: "real \<Rightarrow> tensor \<Rightarrow> tensor" where
  "scalar_mul s t = t\<lparr>vals := map (map (\<lambda>v. s * v)) (vals t)\<rparr>"

text \<open>
  A binary operation on two tensors of different float types is a type mismatch in
  TensorFlow (the comment in \<^verbatim>\<open>Sampling.call\<close> names it).
\<close>

definition tf_mul :: "tensor \<Rightarrow> tensor \<Rightarrow> error + tensor" where
  "tf_mul a b =
     (if dtype a \<noteq> dtype b then Inl InvalidArgumentError
      else Inr \<lparr>dtype = dtype a, vals = map2 (map2 (*)) (vals a) (vals b)\<rparr>)"

definition tf_add :: "tensor \<Rightarrow> tensor \<Rightarrow> error + tensor" where
  "tf_add a b =
     (if dtype a \<noteq> dtype b then Inl InvalidArgumentError
      else Inr \<lparr>dtype = dtype a, vals = map2 (map2 (+)) (vals a) (vals b)\<rparr>)"

section \<open>The Sampling layer\<close>

text \<open>
  \<^verbatim>\<open>
  def call(self, inputs):
      z_mean, z_log_var = inputs
      batch = tf.shape(z_mean)[0]
      dim = tf.shape(z_mean)[1]
      a = tf.exp(0.5 * z_log_var)
      epsilon = tf.cast(tf.keras.backend.random_normal(shape=(batch, dim)), dtype=a.dtype)
      return z_mean + a * epsilon
  \<close>
  \<open>Sampling_a\<close> and \<open>Sampling_epsilon\<close> are the local variables \<^verbatim>\<open>a\<close> and
  \<^verbatim>\<open>epsilon\<close>.
\<close>

definition Sampling_a :: "tensor \<Rightarrow> tensor" where
  "Sampling_a z_log_var = tf_exp (scalar_mul 0.5 z_log_var)"

definition Sampling_epsilon :: "draws \<Rightarrow> tensor \<Rightarrow> tensor \<Rightarrow> tensor" where
  "Sampling_epsilon g z_mean a =
     (let batch = shape0 (vals z_mean);
          dim = shape1 (vals z_mean)
      in tf_cast (random_normal g (batch, dim)) (dtype a))"

definition Sampling_call :: "draws \<Rightarrow> tensor \<times> tensor \<Rightarrow> error + tensor" where
  "Sampling_call g inputs =
     (case inputs of (z_mean, z_log_var) \<Rightarrow>
        let a = Sampling_a z_log_var;
            epsilon = Sampling_epsilon g z_mean a
        in (case tf_mul a epsilon of
              Inl e \<Rightarrow> Inl e
            | Inr ae \<Rightarrow> tf_add z_mean ae))"

section \<open>Configuration and collaborators\<close>

text \<open>The fields of \<^verbatim>\<open>config.Config\<close> that the model reads.\<close>

record config =
  latent_dim :: int
  input_shape :: "int list"
  filters :: "int list"
  kernels :: int
  strides :: int
  last_conv_dim :: int
  cfg_b_norm :: real

text \<open>
  The Keras layers, the pretrained VGG16 network, the element-wise binary cross-entropy,
  the gradient tape and the optimizer are library code and collaborators, not code of
  this repository: they are parameters of the model. \<open>'w\<close> is the type of the
  trainable variables, those of VGG16 among them, which the program does not freeze; a
  layer is identified by the place where the constructor creates it. \<open>policy\<close> is the
  float type the layers compute in (float16 under mixed precision).
\<close>

record 'w keras =
  policy :: dtype
  initial_variables :: 'w
  Conv2D :: "'w \<Rightarrow> string \<times> nat \<Rightarrow> int \<Rightarrow> int \<Rightarrow> int \<Rightarrow> batch \<Rightarrow> batch"
  Conv2DTranspose :: "'w \<Rightarrow> string \<times> nat \<Rightarrow> int \<Rightarrow> int \<Rightarrow> int \<Rightarrow> batch \<Rightarrow> batch"
  BatchNormalization :: "'w \<Rightarrow> string \<times> nat \<Rightarrow> batch \<Rightarrow> batch"
  leaky_relu :: "real \<Rightarrow> real"
  Dense :: "'w \<Rightarrow> string \<Rightarrow> int \<Rightarrow> mat \<Rightarrow> mat"
  Reshape :: "int \<times> int \<times> int \<Rightarrow> mat \<Rightarrow> batch"
  VGG16_layer_output :: "'w \<Rightarrow> nat \<Rightarrow> batch \<Rightarrow> batch"
  bce :: "real \<Rightarrow> real \<Rightarrow> real"
  tape_gradient :: "'w \<Rightarrow> draws \<Rightarrow> batch \<Rightarrow> 'w"
  apply_gradients :: "'w \<Rightarrow> 'w \<Rightarrow> 'w"

definition map_batch :: "(real \<Rightarrow> real) \<Rightarrow> batch \<Rightarrow> batch" where
  "map_batch f = map (map (map (map f)))"

definition relu :: "real \<Rightarrow> real" where
  "relu x = max 0 x"

definition sigmoid :: "real \<Rightarrow> real" where
  "sigmoid x = 1 / (1 + exp (- x))"

text \<open>\<^verbatim>\<open>keras.layers.Flatten\<close>: shape (batch, h, w, c) to (batch, h * w * c).\<close>

definition Flatten :: "batch \<Rightarrow> mat" where
  "Flatten x = map (\<lambda>img. concat (concat img)) x"

section \<open>The running metric accumulators\<close>

text \<open>
  \<^verbatim>\<open>keras.metrics.Mean\<close> keeps a total and a count; \<^verbatim>\<open>update_state\<close> with a
  scalar adds it to the total and one to the count, \<^verbatim>\<open>result\<close> divides the total
  by the count (and is 0 while the count is 0), \<^verbatim>\<open>reset_state\<close> sets both to 0.
\<close>

record Mean =
  mtotal :: real
  mcount :: real

definition reset_state :: "Mean" where
  "reset_state = \<lparr>mtotal = 0, mcount = 0\<rparr>"

definition update_state :: "Mean \<Rightarrow> real \<Rightarrow> Mean" where
  "update_state m v = m\<lparr>mtotal := mtotal m + v, mcount := mcount m + 1\<rparr>"

definition result :: "Mean \<Rightarrow> real" where
  "result m = (if mcount m = 0 then 0 else mtotal m / mcount m)"

section \<open>The model object and its constructor\<close>

text \<open>
  The constructor builds two Keras models from the configuration. What it fixes of them,
  the layer sizes read from the configuration, is kept in the object; applying a built
  model to a tensor is \<open>encoder_call\<close> and \<open>decoder_call\<close> below.
\<close>

record encoder_model =
  conv_filters :: "int list"
  conv_kernel_size :: int
  conv_strides :: int
  z_units :: int

record decoder_model =
  dense_units :: int
  reshape_target :: "int \<times> int \<times> int"
  deconv_filters :: "int list"
  deconv_kernel_size :: int
  deconv_strides :: int
  output_filters :: int

record 'w ConvolutionalVAE =
  code_dim_size :: int
  target_image_dims :: "int list"
  b_norm :: real
  encoder :: encoder_model
  decoder :: decoder_model
  trainable_variables :: 'w
  total_loss_tracker :: Mean
  reconstruction_loss_tracker :: Mean
  kl_loss_tracker :: Mean
  perception_loss_tracker :: Mean

text \<open>
  \<^verbatim>\<open>
  def __init__(self, gamma=100, **kwargs):
      self.code_dim_size = c.latent_dim
      self.target_image_dims = c.input_shape
      self.b_norm = gamma * c.b_norm * self.code_dim_size / math.prod(self.target_image_dims)
      ...
  \<close>
  The division raises ZeroDivisionError when the product of the dimensions is 0. With
  an empty filter list the loop over the filters never binds \<^verbatim>\<open>x\<close>, and
  \<^verbatim>\<open>Flatten()(x)\<close> raises UnboundLocalError. \<^verbatim>\<open>self.target_image_dims[-1]\<close> raises
  IndexError on an empty shape. The shape checks that Keras itself makes while the
  layers are built are not modelled.
\<close>

definition init :: "'w keras \<Rightarrow> config \<Rightarrow> real \<Rightarrow> error + 'w ConvolutionalVAE" where
  "init k c gamma =
     (if prod_list (input_shape c) = 0 then Inl ZeroDivisionError
      else if filters c = [] then Inl UnboundLocalError
      else if input_shape c = [] then Inl IndexError
      else Inr
        \<lparr>code_dim_size = latent_dim c,
         target_image_dims = input_shape c,
         b_norm = gamma * cfg_b_norm c * real_of_int (latent_dim c)
                    / real_of_int (prod_list (input_shape c)),
         encoder = \<lparr>conv_filters = filters c, conv_kernel_size = kernels c,
                     conv_strides = strides c, z_units = latent_dim c\<rparr>,
         decoder = \<lparr>dense_units = last_conv_dim c * last_conv_dim c * last (filters c),
                     reshape_target = (last_conv_dim c, last_conv_dim c, last (filters c)),
                     deconv_filters = rev (filters c),
                     deconv_kernel_size = kernels c, deconv_strides = strides c,
                     output_filters = last (input_shape c)\<rparr>,
         trainable_variables = initial_variables k,
         total_loss_tracker = reset_state,
         reconstruction_loss_tracker = reset_state,
         kl_loss_tracker = reset_state,
         perception_loss_tracker = reset_state\<rparr>)"

text \<open>
  \<^verbatim>\<open>_conv_block\<close> and \<^verbatim>\<open>_deconv_block\<close>: a (transposed) convolution, batch
  normalization, leaky ReLU. The loops of the constructor chain one block per filter.
\<close>

definition conv_block :: "'w keras \<Rightarrow> encoder_model \<Rightarrow> 'w \<Rightarrow> nat \<Rightarrow> batch \<Rightarrow> int \<Rightarrow> batch" where
  "conv_block k m w i input filter_n =
     (let conv = Conv2D k w (''conv_block'', i) filter_n (conv_kernel_size m) (conv_strides m) input;
          conv = BatchNormalization k w (''conv_block'', i) conv;
          outputs = map_batch (leaky_relu k) conv
      in outputs)"

definition deconv_block :: "'w keras \<Rightarrow> decoder_model \<Rightarrow> 'w \<Rightarrow> batch \<Rightarrow> int \<Rightarrow> nat \<Rightarrow> batch" where
  "deconv_block k m w input filter_n i =
     (let deconv = Conv2DTranspose k w (''deconv_block'', i) filter_n
                     (deconv_kernel_size m) (deconv_strides m) input;
          deconv = BatchNormalization k w (''deconv_block'', i) deconv;
          outputs = map_batch (leaky_relu k) deconv
      in outputs)"

fun conv_blocks :: "'w keras \<Rightarrow> encoder_model \<Rightarrow> 'w \<Rightarrow> nat \<Rightarrow> batch \<Rightarrow> int list \<Rightarrow> batch" where
  "conv_blocks k m w i x [] = x"
| "conv_blocks k m w i x (filter_n # rest) =
     conv_blocks k m w (Suc i) (conv_block k m w i x filter_n) rest"

fun deconv_blocks :: "'w keras \<Rightarrow> decoder_model \<Rightarrow> 'w \<Rightarrow> nat \<Rightarrow> batch \<Rightarrow> int list \<Rightarrow> batch" where
  "deconv_blocks k m w i d [] = d"
| "deconv_blocks k m w i d (filter_n # rest) =
     deconv_blocks k m w (Suc i) (deconv_block k m w d filter_n i) rest"

text \<open>
  The encoder model:
  \<^verbatim>\<open>
  x = keras.layers.Flatten()(x)
  z_mean_dense = keras.layers.Dense(self.code_dim_size, name='z_mean')(x)
  z_logvar_dense = keras.layers.Dense(self.code_dim_size, name='z_logvar')(x)
  z = Sampling()([z_mean_dense, z_logvar_dense])
  self.encoder = keras.Model(e_input, [z_mean_dense, z_mean_dense, z], name='encoder')
  \<close>
\<close>

definition encoder_call ::
  "'w keras \<Rightarrow> encoder_model \<Rightarrow> 'w \<Rightarrow> draws \<Rightarrow> batch \<Rightarrow> error + (tensor \<times> tensor \<times> tensor)" where
  "encoder_call k m w g e_input =
     (let x = conv_blocks k m w 0 e_input (conv_filters m);
          x = Flatten x;
          z_mean_dense = \<lparr>dtype = policy k, vals = Dense k w ''z_mean'' (z_units m) x\<rparr>;
          z_logvar_dense = \<lparr>dtype = policy k, vals = Dense k w ''z_logvar'' (z_units m) x\<rparr>
      in (case Sampling_call g (z_mean_dense, z_logvar_dense) of
            Inl e \<Rightarrow> Inl e
          | Inr z \<Rightarrow> Inr (z_mean_dense, z_mean_dense, z)))"

text \<open>
  The decoder model: a dense layer with ReLU, a reshape, one transposed-convolution
  block per filter in reverse order, a last transposed convolution with stride 1 and a
  sigmoid.
\<close>

definition decoder_call :: "'w keras \<Rightarrow> decoder_model \<Rightarrow> 'w \<Rightarrow> mat \<Rightarrow> batch" where
  "decoder_call k m w latent_input =
     (let d = map (map relu) (Dense k w ''dense'' (dense_units m) latent_input);
          d = Reshape k (reshape_target m) d;
          d = deconv_blocks k m w 0 d (deconv_filters m);
          decoder_output = Conv2DTranspose k w (''decoder_output'', 0) (output_filters m)
                             (deconv_kernel_size m) 1 d;
          decoder_output = map_batch sigmoid decoder_output
      in decoder_output)"

text \<open>
  The feature extractor: the outputs of five layers of VGG16.
  \<^verbatim>\<open>
  model = VGG16(include_top=False)
  vgg_conv_block_ixs = [1, 4, 7, 11, 15]
  outputs = [model.layers[i].output for i in vgg_conv_block_ixs]
  self.vgg_model = keras.Model(inputs=model.inputs, outputs=outputs)
  \<close>
  VGG16 without its top is built for images of three channels: called on a batch with
  another number of channels it raises ValueError.
\<close>

definition three_channels :: "batch \<Rightarrow> bool" where
  "three_channels x = list_all (list_all (list_all (\<lambda>px. length px = 3))) x"

definition vgg_conv_block_ixs :: "nat list" where
  "vgg_conv_block_ixs = [1, 4, 7, 11, 15]"

definition vgg_model :: "'w keras \<Rightarrow> 'w \<Rightarrow> batch \<Rightarrow> error + batch list" where
  "vgg_model k w x =
     (if three_channels x then Inr (map (\<lambda>i. VGG16_layer_output k w i x) vgg_conv_block_ixs)
      else Inl ValueError)"

text \<open>\<^verbatim>\<open>call\<close>: the reconstruction of a batch.\<close>

definition call :: "'w keras \<Rightarrow> draws \<Rightarrow> 'w ConvolutionalVAE \<Rightarrow> batch \<Rightarrow> error + batch" where
  "call k g self inputs =
     (case encoder_call k (encoder self) (trainable_variables self) g inputs of
        Inl e \<Rightarrow> Inl e
      | Inr (z_mean, z_log_var, z) \<Rightarrow>
          Inr (decoder_call k (decoder self) (trainable_variables self) (vals z)))"

section \<open>Losses\<close>

text \<open>
  The tensor operations of the loss computation, on the values of tensors of one shape.
  \<open>reduce_sum\<close> is \<^verbatim>\<open>tf.reduce_sum\<close> without an axis, which adds up every element of
  the tensor, the batch axis included; \<open>reduce_sum_axis1\<close> and \<open>reduce_sum_axes12\<close> are
  \<^verbatim>\<open>tf.reduce_sum\<close> with \<^verbatim>\<open>axis=1\<close> and \<^verbatim>\<open>axis=(1, 2)\<close>, which keep the batch axis.
  \<open>reduce_mean\<close> is \<^verbatim>\<open>tf.reduce_mean\<close> of a rank-1 tensor and \<open>reduce_mean0\<close> that of a
  scalar, a tensor with one element.
\<close>

definition add_scalar :: "real \<Rightarrow> mat \<Rightarrow> mat" where
  "add_scalar s t = map (map (\<lambda>v. s + v)) t"

definition mul_scalar :: "real \<Rightarrow> mat \<Rightarrow> mat" where
  "mul_scalar s t = map (map (\<lambda>v. s * v)) t"

definition sub_vals :: "mat \<Rightarrow> mat \<Rightarrow> mat" where
  "sub_vals a b = map2 (map2 (-)) a b"

definition pow_vals :: "mat \<Rightarrow> nat \<Rightarrow> mat" where
  "pow_vals t n = map (map (\<lambda>v. v ^ n)) t"

definition square_vals :: "mat \<Rightarrow> mat" where
  "square_vals t = map (map (\<lambda>v. v * v)) t"

definition exp_vals :: "mat \<Rightarrow> mat" where
  "exp_vals t = map (map exp) t"

definition reduce_sum :: "mat \<Rightarrow> real" where
  "reduce_sum t = sum_list (map sum_list t)"

definition reduce_sum_axis1 :: "mat \<Rightarrow> vec" where
  "reduce_sum_axis1 t = map sum_list t"

definition reduce_sum_axes12 :: "real list list list \<Rightarrow> vec" where
  "reduce_sum_axes12 t = map (\<lambda>x. sum_list (map sum_list x)) t"

definition reduce_mean :: "vec \<Rightarrow> real" where
  "reduce_mean v = sum_list v / real (length v)"

definition reduce_mean0 :: "real \<Rightarrow> real" where
  "reduce_mean0 s = reduce_mean [s]"

text \<open>\<^verbatim>\<open>tf.math.add_n\<close> of a list of scalars (the program passes five).\<close>

definition add_n :: "real list \<Rightarrow> real" where
  "add_n xs = sum_list xs"

text \<open>
  \<^verbatim>\<open>keras.losses.binary_crossentropy\<close>: the element-wise cross-entropy, averaged over
  the last axis (the channels), so that shape (batch, h, w, c) gives (batch, h, w).
\<close>

definition binary_crossentropy :: "'w keras \<Rightarrow> batch \<Rightarrow> batch \<Rightarrow> real list list list" where
  "binary_crossentropy k y_true y_pred =
     map2 (map2 (map2 (\<lambda>t p. reduce_mean (map2 (bce k) t p)))) y_true y_pred"

text \<open>
  A loss is a scalar tensor with its float type. The product of a Python number and a
  tensor has the type of the tensor; the sum of two tensors of different float types
  raises, as for the tensors of the Sampling layer.
\<close>

record scalar =
  sdtype :: dtype
  sval :: real

definition scalar_times :: "real \<Rightarrow> scalar \<Rightarrow> scalar" where
  "scalar_times c s = s\<lparr>sval := c * sval s\<rparr>"

definition scalar_plus :: "scalar \<Rightarrow> scalar \<Rightarrow> error + scalar" where
  "scalar_plus a b =
     (if sdtype a \<noteq> sdtype b then Inl InvalidArgumentError
      else Inr \<lparr>sdtype = sdtype a, sval = sval a + sval b\<rparr>)"

text \<open>
  \<^verbatim>\<open>
  def _total_loss_fn(self, reconstruction_loss, kl_loss, perception_loss):
      reconstruction_loss = 0.5 * reconstruction_loss
      return reconstruction_loss + 0.5 * perception_loss + kl_loss
  \<close>
\<close>

definition total_loss_fn ::
  "'w ConvolutionalVAE \<Rightarrow> scalar \<Rightarrow> scalar \<Rightarrow> scalar \<Rightarrow> error + scalar" where
  "total_loss_fn self reconstruction_loss kl_loss perception_loss =
     (let reconstruction_loss = scalar_times 0.5 reconstruction_loss
      in (case scalar_plus reconstruction_loss (scalar_times 0.5 perception_loss) of
            Inl e \<Rightarrow> Inl e
          | Inr s \<Rightarrow> scalar_plus s kl_loss))"

section \<open>The evaluation step and the train step\<close>

text \<open>
  A step takes the object and returns it with the dictionary of the step; the random
  values that the Sampling layer draws during the step are an input. The dictionary is
  the list of its entries in the order of the dictionary display.

  The float types of the three losses: the decoder ends in a sigmoid that is computed in
  float32 whatever the policy, so the reconstruction and the reconstruction loss are
  float32; the outputs of the encoder and the feature maps of VGG16 have the float type
  of the policy, and so have the KL loss and the perceptual loss. Under a float16 policy
  the sum in \<^verbatim>\<open>_total_loss_fn\<close> therefore raises.
\<close>

type_synonym dict = "(string \<times> real) list"

definition test_step ::
  "'w keras \<Rightarrow> draws \<Rightarrow> 'w ConvolutionalVAE \<Rightarrow> batch \<Rightarrow> error + ('w ConvolutionalVAE \<times> dict)" where
  "test_step k g self data =
     (case encoder_call k (encoder self) (trainable_variables self) g data of
        Inl e \<Rightarrow> Inl e
      | Inr (z_mean, z_log_var, z) \<Rightarrow>
         (let reconstruction = decoder_call k (decoder self) (trainable_variables self) (vals z)
          in (case vgg_model k (trainable_variables self) data of
                Inl e \<Rightarrow> Inl e
              | Inr feature_maps_data \<Rightarrow>
         (case vgg_model k (trainable_variables self) reconstruction of
            Inl e \<Rightarrow> Inl e
          | Inr feature_maps_reconstruction \<Rightarrow>
         (let feature_losses =
                map (\<lambda>i.
                       let feature_map_data = Flatten (feature_maps_data ! i);
                           feature_map_reconstruction = Flatten (feature_maps_reconstruction ! i)
                       in reduce_mean0
                            (reduce_sum
                               (pow_vals (sub_vals feature_map_data feature_map_reconstruction) 2)))
                    [0..<length feature_maps_data];
              perception_loss = \<lparr>sdtype = policy k, sval = add_n feature_losses\<rparr>;
              reconstruction_loss =
                \<lparr>sdtype = float32,
                 sval = reduce_mean
                          (reduce_sum_axes12 (binary_crossentropy k data reconstruction))\<rparr>;
              kl_loss =
                mul_scalar (- 0.5)
                  (sub_vals
                     (sub_vals (add_scalar 1 (vals z_log_var)) (square_vals (vals z_mean)))
                     (exp_vals (vals z_log_var)));
              kl_loss =
                \<lparr>sdtype = dtype z_log_var, sval = reduce_mean (reduce_sum_axis1 kl_loss)\<rparr>
          in (case total_loss_fn self reconstruction_loss kl_loss perception_loss of
                Inl e \<Rightarrow> Inl e
              | Inr total_loss \<Rightarrow>
                  Inr (self,
                       [(''loss'', sval total_loss),
                        (''reconstruction_loss'', sval reconstruction_loss),
                        (''kl_loss'', sval kl_loss),
                        (''perception_loss'', sval perception_loss)])))))))"

text \<open>
  The train step computes the same losses, lets the optimizer apply the gradients of the
  total loss, updates the four accumulators and returns their results.
\<close>

definition train_step ::
  "'w keras \<Rightarrow> draws \<Rightarrow> 'w ConvolutionalVAE \<Rightarrow> batch \<Rightarrow> error + ('w ConvolutionalVAE \<times> dict)" where
  "train_step k g self data =
     (case encoder_call k (encoder self) (trainable_variables self) g data of
        Inl e \<Rightarrow> Inl e
      | Inr (z_mean, z_log_var, z) \<Rightarrow>
         (let reconstruction = decoder_call k (decoder self) (trainable_variables self) (vals z)
          in (case vgg_model k (trainable_variables self) data of
                Inl e \<Rightarrow> Inl e
              | Inr feature_maps_data \<Rightarrow>
         (case vgg_model k (trainable_variables self) reconstruction of
            Inl e \<Rightarrow> Inl e
          | Inr feature_maps_reconstruction \<Rightarrow>
         (let feature_losses =
                map (\<lambda>i.
                       let feature_map_data = Flatten (feature_maps_data ! i);
                           feature_map_reconstruction = Flatten (feature_maps_reconstruction ! i)
                       in reduce_mean0
                            (reduce_sum
                               (pow_vals (sub_vals feature_map_data feature_map_reconstruction) 2)))
                    [0..<length feature_maps_data];
              perception_loss = \<lparr>sdtype = policy k, sval = add_n feature_losses\<rparr>;
              reconstruction_loss =
                \<lparr>sdtype = float32,
                 sval = reduce_mean
                          (reduce_sum_axes12 (binary_crossentropy k data reconstruction))\<rparr>;
              kl_loss =
                mul_scalar (- 0.5)
                  (sub_vals
                     (sub_vals (add_scalar 1 (vals z_log_var)) (square_vals (vals z_mean)))
                     (exp_vals (vals z_log_var)));
              kl_loss =
                \<lparr>sdtype = dtype z_log_var, sval = reduce_mean (reduce_sum_axis1 kl_loss)\<rparr>
          in (case total_loss_fn self reconstruction_loss kl_loss perception_loss of
                Inl e \<Rightarrow> Inl e
              | Inr total_loss \<Rightarrow>
         (let grads = tape_gradient k (trainable_variables self) g data;
              self = self\<lparr>trainable_variables :=
                            apply_gradients k grads (trainable_variables self)\<rparr>;
              self = self\<lparr>total_loss_tracker :=
                            update_state (total_loss_tracker self) (sval total_loss)\<rparr>;
              self = self\<lparr>reconstruction_loss_tracker :=
                            update_state (reconstruction_loss_tracker self)
                              (sval reconstruction_loss)\<rparr>;
              self = self\<lparr>kl_loss_tracker :=
                            update_state (kl_loss_tracker self) (sval kl_loss)\<rparr>;
              self = self\<lparr>perception_loss_tracker :=
                            update_state (perception_loss_tracker self) (sval perception_loss)\<rparr>
          in Inr (self,
                  [(''loss'', result (total_loss_tracker self)),
                   (''reconstruction_loss'', result (reconstruction_loss_tracker self)),
                   (''kl_loss'', result (kl_loss_tracker self)),
                   (''perception_loss'', result (perception_loss_tracker self))]))))))))"

text \<open>
  The batches on which a step computes numbers: the batch and its reconstruction have
  three channels, which is what VGG16 takes, and no tensor that the step averages is
  empty: the batch, the reconstruction and the mean have at least one example (with
  three channels, the average over the channels is not empty either).
\<close>

definition step_accepts :: "'w keras \<Rightarrow> draws \<Rightarrow> 'w ConvolutionalVAE \<Rightarrow> batch \<Rightarrow> bool" where
  "step_accepts k g self data \<longleftrightarrow>
     data \<noteq> [] \<and> three_channels data
     \<and> (case encoder_call k (encoder self) (trainable_variables self) g data of
          Inl e \<Rightarrow> False
        | Inr (z_mean, z_log_var, z) \<Rightarrow>
            vals z_mean \<noteq> []
            \<and> (let reconstruction =
                      decoder_call k (decoder self) (trainable_variables self) (vals z)
                in reconstruction \<noteq> [] \<and> three_channels reconstruction))"




section \<open>Closed forms\<close>

text \<open>
  The values that the steps compute, written as functions of the layers, for use in
  the proofs: the two dense projections of the encoder, the sample, the reconstruction
  and the three losses.
\<close>

definition sample_vals :: "draws \<Rightarrow> mat \<Rightarrow> mat \<Rightarrow> mat" where
  "sample_vals g m lv =
     map2 (map2 (+)) m
       (map2 (map2 (*)) (map (map exp) (map (map (\<lambda>v. 0.5 * v)) lv))
          (map (\<lambda>i. map (\<lambda>j. g (i * shape1 m + j)) [0..<shape1 m]) [0..<shape0 m]))"

definition encoder_mean :: "'w keras \<Rightarrow> encoder_model \<Rightarrow> 'w \<Rightarrow> batch \<Rightarrow> mat" where
  "encoder_mean k m w x =
     Dense k w ''z_mean'' (z_units m) (Flatten (conv_blocks k m w 0 x (conv_filters m)))"

definition encoder_logvar :: "'w keras \<Rightarrow> encoder_model \<Rightarrow> 'w \<Rightarrow> batch \<Rightarrow> mat" where
  "encoder_logvar k m w x =
     Dense k w ''z_logvar'' (z_units m) (Flatten (conv_blocks k m w 0 x (conv_filters m)))"

definition step_reconstruction ::
  "'w keras \<Rightarrow> draws \<Rightarrow> encoder_model \<Rightarrow> decoder_model \<Rightarrow> 'w \<Rightarrow> batch \<Rightarrow> batch" where
  "step_reconstruction k g em dm w data =
     decoder_call k dm w (sample_vals g (encoder_mean k em w data) (encoder_logvar k em w data))"

definition step_perception_loss :: "'w keras \<Rightarrow> 'w \<Rightarrow> batch \<Rightarrow> batch \<Rightarrow> real" where
  "step_perception_loss k w data reconstruction =
     sum_list
       (map (\<lambda>i. reduce_sum
                   (pow_vals (sub_vals (Flatten (VGG16_layer_output k w i data))
                                (Flatten (VGG16_layer_output k w i reconstruction))) 2))
          vgg_conv_block_ixs)"

definition step_reconstruction_loss :: "'w keras \<Rightarrow> batch \<Rightarrow> batch \<Rightarrow> real" where
  "step_reconstruction_loss k data reconstruction =
     reduce_mean (reduce_sum_axes12 (binary_crossentropy k data reconstruction))"

definition kl_element :: "real \<Rightarrow> real" where
  "kl_element v = - 0.5 * (1 + v - v * v - exp v)"

definition step_kl_loss :: "mat \<Rightarrow> real" where
  "step_kl_loss m = reduce_mean (map (\<lambda>row. sum_list (map kl_element row)) m)"

definition step_losses ::
  "'w keras \<Rightarrow> draws \<Rightarrow> encoder_model \<Rightarrow> decoder_model \<Rightarrow> 'w \<Rightarrow> batch
     \<Rightarrow> real \<times> real \<times> real \<times> real" where
  "step_losses k g em dm w data =
     (let reconstruction = step_reconstruction k g em dm w data;
          p = step_perception_loss k w data reconstruction;
          r = step_reconstruction_loss k data reconstruction;
          kl = step_kl_loss (encoder_mean k em w data)
      in (0.5 * r + 0.5 * p + kl, r, kl, p))"

definition losses_dict :: "real \<times> real \<times> real \<times> real \<Rightarrow> dict" where
  "losses_dict v =
     (case v of (l, r, kl, p) \<Rightarrow>
        [(''loss'', l), (''reconstruction_loss'', r), (''kl_loss'', kl),
         (''perception_loss'', p)])"

text \<open>
  The dictionary of the train step as a function of the four accumulators, the
  instantaneous losses along a run of train steps, and the dictionaries the run returns.
\<close>

definition trackers_dict :: "Mean \<times> Mean \<times> Mean \<times> Mean \<Rightarrow> dict" where
  "trackers_dict ts =
     (case ts of (t1, t2, t3, t4) \<Rightarrow>
        [(''loss'', result t1), (''reconstruction_loss'', result t2), (''kl_loss'', result t3),
         (''perception_loss'', result t4)])"



section \<open>The formulas of the specification\<close>

text \<open>
  The total loss with the KL term weighted by the normalized beta coefficient, the KL
  divergence summed over the latent dimensions and averaged over the batch, and the
  perceptual loss with each of the five scales averaged over the batch, as the
  specification words them.
\<close>

definition total_loss_spec :: "'w ConvolutionalVAE \<Rightarrow> real \<Rightarrow> real \<Rightarrow> real \<Rightarrow> real" where
  "total_loss_spec self reconstruction_loss kl_loss perception_loss =
     0.5 * reconstruction_loss + 0.5 * perception_loss + b_norm self * kl_loss"


definition perceptual_loss_spec :: "mat list \<Rightarrow> mat list \<Rightarrow> real" where
  "perceptual_loss_spec fs_data fs_reconstruction =
     (\<Sum>s<5. (\<Sum>i<length (fs_data ! s). \<Sum>j<length (fs_data ! s ! i).
                 (fs_data ! s ! i ! j - fs_reconstruction ! s ! i ! j)\<^sup>2)
              / real (length (fs_data ! s)))"

section \<open>The shape of a batch\<close>


section \<open>Examples\<close>

text \<open>Inputs of the Sampling layer, and draws of the generator.\<close>

definition example_mean :: tensor where
  "example_mean = \<lparr>dtype = float16, vals = [[1, 2]]\<rparr>"

definition example_logvar :: tensor where
  "example_logvar = \<lparr>dtype = float16, vals = [[0, 0]]\<rparr>"

definition unit_draws :: draws where
  "unit_draws n = 1"

definition zero_draws :: draws where
  "zero_draws n = 0"

definition mixed_draws :: draws where
  "mixed_draws n = (if n < 3 then 1 else 2)"

text \<open>
  An instance of the collaborators for images of one pixel and three channels: every
  layer has the weights of the identity, the feature extractor returns the image, and the
  optimizer leaves the variables as they are.
\<close>

definition identity_keras :: "unit keras" where
  "identity_keras =
     \<lparr>policy = float32,
      initial_variables = (),
      Conv2D = (\<lambda>w l f ks st x. x),
      Conv2DTranspose = (\<lambda>w l f ks st x. x),
      BatchNormalization = (\<lambda>w l x. x),
      leaky_relu = (\<lambda>x. max x (x / 5)),
      Dense = (\<lambda>w name units x. x),
      Reshape = (\<lambda>target x. map (\<lambda>r. [[r]]) x),
      VGG16_layer_output = (\<lambda>w i x. x),
      bce = (\<lambda>t p. - (t * ln p + (1 - t) * ln (1 - p))),
      tape_gradient = (\<lambda>w g x. ()),
      apply_gradients = (\<lambda>grads w. w)\<rparr>"

definition unit_config :: config where
  "unit_config =
     \<lparr>latent_dim = 3, input_shape = [1, 1, 3], filters = [3], kernels = 1, strides = 1,
      last_conv_dim = 1, cfg_b_norm = 1\<rparr>"

definition unit_model :: "unit ConvolutionalVAE" where
  "unit_model = projr (init identity_keras unit_config 100)"

definition one_zero_image :: batch where
  "one_zero_image = [[[[0, 0, 0]]]]"

definition two_zero_images :: batch where
  "two_zero_images = [[[[0, 0, 0]]], [[[0, 0, 0]]]]"

definition one_bright_image :: batch where
  "one_bright_image = [[[[1, 1, 1]]]]"

definition half_images :: batch where
  "half_images = [[[[1 / 2, 1 / 2, 1 / 2]]], [[[1 / 2, 1 / 2, 1 / 2]]]]"

definition zero_and_bright :: batch where
  "zero_and_bright = [[[[0, 0, 0]]], [[[1, 1, 1]]]]"



text \<open>
  An instance for the configuration latent_dim = 8, input_shape = (32, 32, 1),
  filters = [16, 32], kernel 3, stride 2, last_conv_dim = 8 and a batch of its shape:
  every kernel and bias is zero, so a layer returns a zero tensor of the shape that the
  layer gives its input. The feature extractor, which only a batch of three channels
  reaches, returns the batch.
\<close>

definition image_width :: "image \<Rightarrow> nat" where
  "image_width img = (case img of [] \<Rightarrow> 0 | row # _ \<Rightarrow> length row)"

definition zero_weight_keras :: "unit keras" where
  "zero_weight_keras =
     \<lparr>policy = float32,
      initial_variables = (),
      Conv2D = (\<lambda>w l f ks st x.
        map (\<lambda>img. replicate ((length img + nat st - 1) div nat st)
                     (replicate ((image_width img + nat st - 1) div nat st)
                        (replicate (nat f) 0))) x),
      Conv2DTranspose = (\<lambda>w l f ks st x.
        map (\<lambda>img. replicate (length img * nat st)
                     (replicate (image_width img * nat st) (replicate (nat f) 0))) x),
      BatchNormalization = (\<lambda>w l x. x),
      leaky_relu = (\<lambda>x. max x (x / 5)),
      Dense = (\<lambda>w name units x. map (\<lambda>r. replicate (nat units) 0) x),
      Reshape = (\<lambda>target x.
        case target of (h, w, c) \<Rightarrow>
          map (\<lambda>r. map (\<lambda>i. map (\<lambda>j. map (\<lambda>ch. let n = (i * nat w + j) * nat c + ch
                                                 in if n < length r then r ! n else 0)
                                           [0..<nat c]) [0..<nat w]) [0..<nat h]) x),
      VGG16_layer_output = (\<lambda>w i x. x),
      bce = (\<lambda>t p. - (t * ln p + (1 - t) * ln (1 - p))),
      tape_gradient = (\<lambda>w g x. ()),
      apply_gradients = (\<lambda>grads w. w)\<rparr>"

definition fixed_config :: config where
  "fixed_config =
     \<lparr>latent_dim = 8, input_shape = [32, 32, 1], filters = [16, 32], kernels = 3, strides = 2,
      last_conv_dim = 8, cfg_b_norm = 1\<rparr>"



section \<open>The Sampling layer and the encoder: results\<close>

lemma Sampling_call_eq:
  "Sampling_call g (z_mean, z_log_var) =
     (if dtype z_mean = dtype z_log_var
      then Inr \<lparr>dtype = dtype z_mean, vals = sample_vals g (vals z_mean) (vals z_log_var)\<rparr>
      else Inl InvalidArgumentError)"
  by (simp add: Sampling_call_def Sampling_a_def Sampling_epsilon_def tf_mul_def tf_add_def
      tf_cast_def tf_exp_def scalar_mul_def random_normal_def sample_vals_def Let_def)

lemma encoder_call_eq:
  "encoder_call k m w g x =
     Inr (\<lparr>dtype = policy k, vals = encoder_mean k m w x\<rparr>,
          \<lparr>dtype = policy k, vals = encoder_mean k m w x\<rparr>,
          \<lparr>dtype = policy k,
           vals = sample_vals g (encoder_mean k m w x) (encoder_logvar k m w x)\<rparr>)"
  by (simp add: encoder_call_def Sampling_call_eq encoder_mean_def encoder_logvar_def Let_def)

lemma has_shape_nth: "has_shape b d m \<Longrightarrow> i < b \<Longrightarrow> length (m ! i) = d"
  by (simp add: has_shape_def list_all_length)

lemma has_shape_shape1: "has_shape b d m \<Longrightarrow> 0 < b \<Longrightarrow> shape1 m = d"
  by (cases m) (auto simp: has_shape_def shape1_def)

lemma sample_vals_length:
  "has_shape b d m \<Longrightarrow> has_shape b d lv \<Longrightarrow> length (sample_vals g m lv) = b"
  by (simp add: sample_vals_def has_shape_def shape0_def)

lemma sample_vals_row:
  assumes "has_shape b d m" "has_shape b d lv" "i < b"
  shows "sample_vals g m lv ! i =
           map2 (+) (m ! i) (map2 (*) (map exp (map (\<lambda>v. 0.5 * v) (lv ! i)))
                                (map (\<lambda>j. g (i * d + j)) [0..<d]))"
proof -
  have "0 < b" using assms(3) by simp
  then have "shape1 m = d" using assms(1) by (rule has_shape_shape1 [rotated])
  moreover have "length m = b" "length lv = b" using assms by (simp_all add: has_shape_def)
  ultimately show ?thesis using assms(3)
    by (simp add: sample_vals_def shape0_def)
qed

lemma sample_vals_nth:
  assumes "has_shape b d m" "has_shape b d lv" "i < b" "j < d"
  shows "sample_vals g m lv ! i ! j = m ! i ! j + exp (0.5 * lv ! i ! j) * g (i * d + j)"
  using assms has_shape_nth [OF assms(1) assms(3)] has_shape_nth [OF assms(2) assms(3)]
  by (simp add: sample_vals_row)

lemma sample_vals_shape:
  assumes "has_shape b d m" "has_shape b d lv"
  shows "has_shape b d (sample_vals g m lv)"
proof -
  have "length (sample_vals g m lv ! i) = d" if "i < b" for i
    using that has_shape_nth [OF assms(1) that] has_shape_nth [OF assms(2) that]
    by (simp add: sample_vals_row [OF assms that])
  then show ?thesis
    by (simp add: has_shape_def list_all_length sample_vals_length [OF assms])
qed

lemma epsilon_vals:
  "vals (Sampling_epsilon g z_mean a) =
     map (\<lambda>i. map (\<lambda>j. g (i * shape1 (vals z_mean) + j)) [0..<shape1 (vals z_mean)])
       [0..<shape0 (vals z_mean)]"
  by (simp add: Sampling_epsilon_def tf_cast_def random_normal_def Let_def)

lemma epsilon_dtype: "dtype (Sampling_epsilon g z_mean a) = dtype a"
  by (simp add: Sampling_epsilon_def tf_cast_def Let_def)

text \<open>
  C7. For a mean and a log-variance of one shape (b, d) and one float type, the
  Sampling layer returns a tensor of that shape whose element (i, j) is
  \<open>mean + exp (0.5 * log_variance) * epsilon\<close> at (i, j). The tensor \<open>epsilon\<close> holds
  the values drawn from the generator in this call, has the shape (b, d) of the mean
  for every batch size b, and is cast to the float type of the factor
  \<open>exp (0.5 * log_variance)\<close> before the multiplication, whatever the type the generator
  yields.
\<close>

theorem Sampling_call_reparameterization:
  assumes "has_shape b d (vals z_mean)" and "has_shape b d (vals z_log_var)"
    and "dtype z_mean = dtype z_log_var"
  shows "\<exists>z. Sampling_call g (z_mean, z_log_var) = Inr z
           \<and> dtype z = dtype z_mean
           \<and> has_shape b d (vals z)
           \<and> has_shape b d (vals (Sampling_epsilon g z_mean (Sampling_a z_log_var)))
           \<and> dtype (Sampling_epsilon g z_mean (Sampling_a z_log_var))
               = dtype (Sampling_a z_log_var)
           \<and> (\<forall>i<b. \<forall>j<d.
                 vals (Sampling_epsilon g z_mean (Sampling_a z_log_var)) ! i ! j = g (i * d + j)
                 \<and> vals z ! i ! j
                     = vals z_mean ! i ! j
                       + exp (0.5 * vals z_log_var ! i ! j)
                         * vals (Sampling_epsilon g z_mean (Sampling_a z_log_var)) ! i ! j)"
proof -
  let ?eps = "Sampling_epsilon g z_mean (Sampling_a z_log_var)"
  let ?z = "\<lparr>dtype = dtype z_mean, vals = sample_vals g (vals z_mean) (vals z_log_var)\<rparr>"
  have len: "length (vals z_mean) = b" using assms(1) by (simp add: has_shape_def)
  have eps_nth: "vals ?eps ! i ! j = g (i * d + j)" if "i < b" "j < d" for i j
  proof -
    have "shape1 (vals z_mean) = d" using assms(1) that(1) by (auto intro: has_shape_shape1)
    then show ?thesis using that len by (simp add: epsilon_vals shape0_def)
  qed
  have eps_shape: "has_shape b d (vals ?eps)"
  proof (cases "b = 0")
    case True
    then show ?thesis using len by (simp add: epsilon_vals shape0_def has_shape_def)
  next
    case False
    then have "shape1 (vals z_mean) = d" using assms(1) by (auto intro: has_shape_shape1)
    then show ?thesis using len
      by (simp add: epsilon_vals shape0_def has_shape_def list_all_length)
  qed
  have call: "Sampling_call g (z_mean, z_log_var) = Inr ?z"
    using assms(3) by (simp add: Sampling_call_eq)
  have z_nth: "vals ?z ! i ! j
      = vals z_mean ! i ! j + exp (0.5 * vals z_log_var ! i ! j) * vals ?eps ! i ! j"
    if "i < b" "j < d" for i j
    using that by (simp add: sample_vals_nth [OF assms(1,2)] eps_nth)
  have "has_shape b d (vals ?z)"
    using sample_vals_shape [OF assms(1,2)] by simp
  with call eps_shape eps_nth z_nth show ?thesis
    by (intro exI [of _ ?z]) (simp add: epsilon_dtype)
qed

theorem Sampling_call_reparameterization_witness:
  "has_shape 1 2 (vals example_mean) \<and> has_shape 1 2 (vals example_logvar)
   \<and> dtype example_mean = dtype example_logvar
   \<and> vals (projr (Sampling_call unit_draws (example_mean, example_logvar))) ! 0 ! 1 = 3"
proof -
  have h: "has_shape 1 2 (vals example_mean)" "has_shape 1 2 (vals example_logvar)"
    "dtype example_mean = dtype example_logvar"
    by (simp_all add: example_mean_def example_logvar_def has_shape_def)
  from Sampling_call_reparameterization [OF h, of unit_draws]
  obtain z where z: "Sampling_call unit_draws (example_mean, example_logvar) = Inr z"
    and nth: "\<forall>i<1. \<forall>j<2. vals z ! i ! j
                = vals example_mean ! i ! j
                  + exp (0.5 * vals example_logvar ! i ! j)
                    * vals (Sampling_epsilon unit_draws example_mean
                              (Sampling_a example_logvar)) ! i ! j"
    and eps: "\<forall>i<1. \<forall>j<2.
                vals (Sampling_epsilon unit_draws example_mean (Sampling_a example_logvar)) ! i ! j
                  = unit_draws (i * 2 + j)"
    by blast
  have "vals z ! 0 ! 1 = 3"
    using nth [rule_format, of 0 1] eps [rule_format, of 0 1]
    by (simp add: example_mean_def example_logvar_def unit_draws_def)
  with h z show ?thesis by simp
qed

text \<open>
  C1. The encoder returns a triple whose first and second components are one tensor,
  the output of the dense projection named \<open>z_mean\<close>; the output of the projection
  named \<open>z_logvar\<close> enters the Sampling layer only, which yields the third component.
\<close>

theorem encoder_returns_mean_twice:
  "\<exists>z_mean z.
     encoder_call k m w g x = Inr (z_mean, z_mean, z)
     \<and> z_mean = \<lparr>dtype = policy k,
                  vals = Dense k w ''z_mean'' (z_units m)
                           (Flatten (conv_blocks k m w 0 x (conv_filters m)))\<rparr>
     \<and> Sampling_call g
          (z_mean,
           \<lparr>dtype = policy k,
            vals = Dense k w ''z_logvar'' (z_units m)
                     (Flatten (conv_blocks k m w 0 x (conv_filters m)))\<rparr>) = Inr z"
  by (simp add: encoder_call_eq Sampling_call_eq encoder_mean_def encoder_logvar_def)

section \<open>The steps in closed form\<close>

lemma kl_code_eq:
  assumes "s = - (1 / 2)"
  shows "reduce_mean (reduce_sum_axis1
     (mul_scalar s (sub_vals (sub_vals (add_scalar 1 m) (square_vals m)) (exp_vals m))))
   = step_kl_loss m"
proof -
  have "mul_scalar s (sub_vals (sub_vals (add_scalar 1 m) (square_vals m)) (exp_vals m))
        = map (map kl_element) m"
    using assms
    by (simp add: mul_scalar_def sub_vals_def add_scalar_def square_vals_def exp_vals_def
        zip_map_map zip_same_conv_map comp_def kl_element_def [abs_def])
  then show ?thesis
    by (simp add: reduce_sum_axis1_def comp_def step_kl_loss_def)
qed

lemma feature_losses_eq:
  "add_n (map (\<lambda>i. reduce_mean0 (reduce_sum (pow_vals
                 (sub_vals (Flatten (map (\<lambda>i. VGG16_layer_output k w i data) vgg_conv_block_ixs ! i))
                    (Flatten (map (\<lambda>i. VGG16_layer_output k w i reconstruction)
                                vgg_conv_block_ixs ! i))) 2)))
            [0..<length vgg_conv_block_ixs])
   = step_perception_loss k w data reconstruction"
  by (simp add: vgg_conv_block_ixs_def step_perception_loss_def add_n_def
      reduce_mean0_def reduce_mean_def upt_rec_numeral)

lemma total_loss_fn_eq:
  "total_loss_fn self r kl p =
     (if sdtype r = sdtype p \<and> sdtype r = sdtype kl
      then Inr \<lparr>sdtype = sdtype r, sval = 0.5 * sval r + 0.5 * sval p + sval kl\<rparr>
      else Inl InvalidArgumentError)"
  by (simp add: total_loss_fn_def scalar_plus_def scalar_times_def Let_def)

lemma test_step_eq:
  "test_step k g self data =
     (if \<not> three_channels data then Inl ValueError
      else if \<not> three_channels (step_reconstruction k g (encoder self) (decoder self)
                                    (trainable_variables self) data)
      then Inl ValueError
      else if policy k \<noteq> float32 then Inl InvalidArgumentError
      else Inr (self, losses_dict (step_losses k g (encoder self) (decoder self)
                                     (trainable_variables self) data)))"
  by (simp add: test_step_def encoder_call_eq vgg_model_def Let_def kl_code_eq feature_losses_eq
      total_loss_fn_eq step_losses_def step_reconstruction_def step_reconstruction_loss_def
      losses_dict_def)

lemma train_step_eq:
  "train_step k g self data =
     (if \<not> three_channels data then Inl ValueError
      else if \<not> three_channels (step_reconstruction k g (encoder self) (decoder self)
                                    (trainable_variables self) data)
      then Inl ValueError
      else if policy k \<noteq> float32 then Inl InvalidArgumentError
      else
       (case step_losses k g (encoder self) (decoder self) (trainable_variables self) data of
        (l, r, kl, p) \<Rightarrow>
        Inr (self\<lparr>trainable_variables :=
                    apply_gradients k (tape_gradient k (trainable_variables self) g data)
                      (trainable_variables self),
                  total_loss_tracker := update_state (total_loss_tracker self) l,
                  reconstruction_loss_tracker := update_state (reconstruction_loss_tracker self) r,
                  kl_loss_tracker := update_state (kl_loss_tracker self) kl,
                  perception_loss_tracker := update_state (perception_loss_tracker self) p\<rparr>,
             trackers_dict
               (update_state (total_loss_tracker self) l,
                update_state (reconstruction_loss_tracker self) r,
                update_state (kl_loss_tracker self) kl,
                update_state (perception_loss_tracker self) p))))"
  by (simp add: train_step_def encoder_call_eq vgg_model_def Let_def kl_code_eq feature_losses_eq
      total_loss_fn_eq step_losses_def step_reconstruction_def step_reconstruction_loss_def
      trackers_dict_def)

lemma step_accepts_eq:
  "step_accepts k g self data \<longleftrightarrow>
     data \<noteq> [] \<and> three_channels data
     \<and> encoder_mean k (encoder self) (trainable_variables self) data \<noteq> []
     \<and> step_reconstruction k g (encoder self) (decoder self) (trainable_variables self) data \<noteq> []
     \<and> three_channels (step_reconstruction k g (encoder self) (decoder self)
                          (trainable_variables self) data)"
  by (simp add: step_accepts_def encoder_call_eq step_reconstruction_def Let_def)

lemma test_step_returns:
  assumes "policy k = float32" and "step_accepts k g self data"
  shows "test_step k g self data =
     Inr (self, losses_dict (step_losses k g (encoder self) (decoder self)
                               (trainable_variables self) data))"
  using assms by (simp add: test_step_eq step_accepts_eq)

lemma train_step_returns:
  assumes "policy k = float32" and "step_accepts k g self data"
  shows "train_step k g self data =
       (case step_losses k g (encoder self) (decoder self) (trainable_variables self) data of
        (l, r, kl, p) \<Rightarrow>
        Inr (self\<lparr>trainable_variables :=
                    apply_gradients k (tape_gradient k (trainable_variables self) g data)
                      (trainable_variables self),
                  total_loss_tracker := update_state (total_loss_tracker self) l,
                  reconstruction_loss_tracker := update_state (reconstruction_loss_tracker self) r,
                  kl_loss_tracker := update_state (kl_loss_tracker self) kl,
                  perception_loss_tracker := update_state (perception_loss_tracker self) p\<rparr>,
             trackers_dict
               (update_state (total_loss_tracker self) l,
                update_state (reconstruction_loss_tracker self) r,
                update_state (kl_loss_tracker self) kl,
                update_state (perception_loss_tracker self) p)))"
  using assms by (simp add: train_step_eq step_accepts_eq)

lemma step_losses_parts:
  "fst (snd (snd (step_losses k g em dm w data))) = step_kl_loss (encoder_mean k em w data)"
  "snd (snd (snd (step_losses k g em dm w data)))
     = step_perception_loss k w data (step_reconstruction k g em dm w data)"
  "fst (snd (step_losses k g em dm w data))
     = step_reconstruction_loss k data (step_reconstruction k g em dm w data)"
  "fst (step_losses k g em dm w data)
     = 0.5 * step_reconstruction_loss k data (step_reconstruction k g em dm w data)
       + 0.5 * step_perception_loss k w data (step_reconstruction k g em dm w data)
       + step_kl_loss (encoder_mean k em w data)"
  by (simp_all add: step_losses_def Let_def)

lemma map_of_losses_dict:
  "map_of (losses_dict v) ''loss'' = Some (fst v)"
  "map_of (losses_dict v) ''reconstruction_loss'' = Some (fst (snd v))"
  "map_of (losses_dict v) ''kl_loss'' = Some (fst (snd (snd v)))"
  "map_of (losses_dict v) ''perception_loss'' = Some (snd (snd (snd v)))"
  by (cases v; simp add: losses_dict_def)+







section \<open>The examples evaluated\<close>

lemma unit_model_eq:
  "encoder unit_model = \<lparr>conv_filters = [3], conv_kernel_size = 1, conv_strides = 1, z_units = 3\<rparr>"
  "decoder unit_model = \<lparr>dense_units = 3, reshape_target = (1, 1, 3), deconv_filters = [3],
      deconv_kernel_size = 1, deconv_strides = 1, output_filters = 3\<rparr>"
  "trainable_variables unit_model = ()"
  "total_loss_tracker unit_model = reset_state"
  "kl_loss_tracker unit_model = reset_state"
  "reconstruction_loss_tracker unit_model = reset_state"
  "perception_loss_tracker unit_model = reset_state"
  by (simp_all add: unit_model_def init_def unit_config_def)

lemmas unit_eval =
  encoder_mean_def encoder_logvar_def unit_model_eq identity_keras_def conv_block_def
  deconv_block_def map_batch_def Flatten_def sample_vals_def shape0_def shape1_def
  decoder_call_def relu_def sigmoid_def step_reconstruction_def

lemma unit_policy: "policy identity_keras = float32"
  by (simp add: identity_keras_def)

lemma unit_mean:
  "encoder_mean identity_keras (encoder unit_model) () one_zero_image = [[0, 0, 0]]"
  "encoder_mean identity_keras (encoder unit_model) () two_zero_images = [[0, 0, 0], [0, 0, 0]]"
  "encoder_mean identity_keras (encoder unit_model) () one_bright_image = [[1, 1, 1]]"
  "encoder_mean identity_keras (encoder unit_model) () zero_and_bright = [[0, 0, 0], [1, 1, 1]]"
  by (simp_all add: unit_eval one_zero_image_def two_zero_images_def one_bright_image_def
      zero_and_bright_def)

lemma unit_reconstruction:
  "step_reconstruction identity_keras zero_draws (encoder unit_model) (decoder unit_model) ()
     one_zero_image = [[[[1 / 2, 1 / 2, 1 / 2]]]]"
  "step_reconstruction identity_keras zero_draws (encoder unit_model) (decoder unit_model) ()
     two_zero_images = half_images"
  "step_reconstruction identity_keras unit_draws (encoder unit_model) (decoder unit_model) ()
     one_zero_image = [[[[1 / (1 + exp (- 1)), 1 / (1 + exp (- 1)), 1 / (1 + exp (- 1))]]]]"
  "step_reconstruction identity_keras mixed_draws (encoder unit_model) (decoder unit_model) ()
     one_zero_image = [[[[1 / (1 + exp (- 1)), 1 / (1 + exp (- 1)), 1 / (1 + exp (- 1))]]]]"
  "step_reconstruction identity_keras zero_draws (encoder unit_model) (decoder unit_model) ()
     one_bright_image = [[[[1 / (1 + exp (- 1)), 1 / (1 + exp (- 1)), 1 / (1 + exp (- 1))]]]]"
  by (simp_all add: unit_eval one_zero_image_def two_zero_images_def one_bright_image_def
      zero_draws_def unit_draws_def mixed_draws_def half_images_def upt_rec_numeral)

lemma unit_accepts:
  "step_accepts identity_keras zero_draws unit_model one_zero_image"
  "step_accepts identity_keras unit_draws unit_model one_zero_image"
  "step_accepts identity_keras mixed_draws unit_model one_zero_image"
  "step_accepts identity_keras zero_draws unit_model two_zero_images"
  "step_accepts identity_keras zero_draws unit_model one_bright_image"
  unfolding step_accepts_eq unit_model_eq(3) unit_mean unit_reconstruction
  by (simp_all add: three_channels_def one_zero_image_def two_zero_images_def
      one_bright_image_def half_images_def)

lemma unit_perception:
  "step_perception_loss identity_keras w [[[[a1, a2, a3]]]] [[[[b1, b2, b3]]]]
     = 5 * ((a1 - b1)\<^sup>2 + (a2 - b2)\<^sup>2 + (a3 - b3)\<^sup>2)"
  "step_perception_loss identity_keras w [[[[a1, a2, a3]]], [[[c1, c2, c3]]]]
       [[[[b1, b2, b3]]], [[[d1, d2, d3]]]]
     = 5 * ((a1 - b1)\<^sup>2 + (a2 - b2)\<^sup>2 + (a3 - b3)\<^sup>2
            + (c1 - d1)\<^sup>2 + (c2 - d2)\<^sup>2 + (c3 - d3)\<^sup>2)"
  by (simp_all add: step_perception_loss_def vgg_conv_block_ixs_def identity_keras_def
      Flatten_def reduce_sum_def pow_vals_def sub_vals_def)

lemma test_step_lookup:
  assumes "policy k = float32" and "step_accepts k g self data"
  shows "map_of (snd (projr (test_step k g self data))) ''kl_loss''
     = Some (step_kl_loss (encoder_mean k (encoder self) (trainable_variables self) data))"
  and "map_of (snd (projr (test_step k g self data))) ''perception_loss''
     = Some (step_perception_loss k (trainable_variables self) data
               (step_reconstruction k g (encoder self) (decoder self)
                  (trainable_variables self) data))"
  and "map_of (snd (projr (test_step k g self data))) ''reconstruction_loss''
     = Some (step_reconstruction_loss k data
               (step_reconstruction k g (encoder self) (decoder self)
                  (trainable_variables self) data))"
  and "map_of (snd (projr (test_step k g self data))) ''loss''
     = Some (0.5 * step_reconstruction_loss k data
               (step_reconstruction k g (encoder self) (decoder self)
                  (trainable_variables self) data)
             + 0.5 * step_perception_loss k (trainable_variables self) data
               (step_reconstruction k g (encoder self) (decoder self)
                  (trainable_variables self) data)
             + step_kl_loss (encoder_mean k (encoder self) (trainable_variables self) data))"
  by (simp_all add: test_step_returns [OF assms] map_of_losses_dict step_losses_parts)







section \<open>The evaluation step changes nothing\<close>



section \<open>The total loss\<close>

text \<open>
  C2. The claim is that the total loss multiplies the KL term by the normalized beta
  coefficient. The constructor computes the coefficient, 0.78125 for gamma = 100, base
  beta 1, latent dimension 8 and input shape (32, 32, 1), and \<open>total_loss_fn\<close> does not
  read it: for the float32 losses 0, 1 and 0 it returns 1, where the sum with the
  weighted KL term, \<open>total_loss_spec\<close>, is 0.78125.
\<close>

theorem total_loss_ignores_beta:
  "init zero_weight_keras fixed_config 100 = Inr (projr (init zero_weight_keras fixed_config 100))
   \<and> b_norm (projr (init zero_weight_keras fixed_config 100)) = 25 / 32
   \<and> total_loss_fn (projr (init zero_weight_keras fixed_config 100))
        \<lparr>sdtype = float32, sval = 0\<rparr> \<lparr>sdtype = float32, sval = 1\<rparr> \<lparr>sdtype = float32, sval = 0\<rparr>
       = Inr \<lparr>sdtype = float32, sval = 1\<rparr>
   \<and> total_loss_spec (projr (init zero_weight_keras fixed_config 100)) 0 1 0 = 25 / 32"
  by (simp add: init_def fixed_config_def total_loss_fn_eq total_loss_spec_def)

section \<open>The perceptual loss\<close>

text \<open>
  C3. The claim is that the perceptual loss averages the squared differences of each of
  the five feature-map pairs over the batch. \<^verbatim>\<open>tf.reduce_sum\<close> without an axis adds up
  the batch axis too, and the \<^verbatim>\<open>tf.reduce_mean\<close> around it is the mean of one number.
  For a batch of two images of three channels with feature maps 0 and reconstructed
  feature maps 1/2 the steps compute 5 * (3/4 + 3/4) = 15/2, where the batch average,
  \<open>perceptual_loss_spec\<close>, is 15/4.
\<close>

theorem perception_loss_not_batch_averaged:
  "map_of (snd (projr (test_step identity_keras zero_draws unit_model two_zero_images)))
      ''perception_loss'' = Some (15 / 2)
   \<and> perception_loss_tracker
       (fst (projr (train_step identity_keras zero_draws unit_model two_zero_images)))
       = \<lparr>mtotal = 15 / 2, mcount = 1\<rparr>
   \<and> step_reconstruction identity_keras zero_draws (encoder unit_model) (decoder unit_model)
       (trainable_variables unit_model) two_zero_images = half_images
   \<and> vgg_model identity_keras (trainable_variables unit_model) two_zero_images
       = Inr (replicate 5 two_zero_images)
   \<and> vgg_model identity_keras (trainable_variables unit_model) half_images
       = Inr (replicate 5 half_images)
   \<and> perceptual_loss_spec (map Flatten (replicate 5 two_zero_images))
       (map Flatten (replicate 5 half_images)) = 15 / 4"
proof -
  have p: "step_perception_loss identity_keras () two_zero_images half_images = 15 / 2"
    by (simp add: two_zero_images_def half_images_def unit_perception power2_eq_square)
  have a: "map_of (snd (projr (test_step identity_keras zero_draws unit_model two_zero_images)))
      ''perception_loss'' = Some (15 / 2)"
    by (simp add: test_step_lookup(2) [OF unit_policy unit_accepts(4)] unit_reconstruction p)
  have b: "perception_loss_tracker
       (fst (projr (train_step identity_keras zero_draws unit_model two_zero_images)))
       = \<lparr>mtotal = 15 / 2, mcount = 1\<rparr>"
    by (cases "step_losses identity_keras zero_draws (encoder unit_model) (decoder unit_model)
                 (trainable_variables unit_model) two_zero_images")
      (use step_losses_parts(2) [of identity_keras zero_draws "encoder unit_model"
            "decoder unit_model" "trainable_variables unit_model" two_zero_images]
        in \<open>simp add: train_step_returns [OF unit_policy unit_accepts(4)] unit_model_eq(4-)
            unit_reconstruction p update_state_def reset_state_def\<close>)
  have c: "step_reconstruction identity_keras zero_draws (encoder unit_model) (decoder unit_model)
       (trainable_variables unit_model) two_zero_images = half_images"
    by (simp add: unit_reconstruction)
  have d: "vgg_model identity_keras (trainable_variables unit_model) two_zero_images
       = Inr (replicate 5 two_zero_images)"
    "vgg_model identity_keras (trainable_variables unit_model) half_images
       = Inr (replicate 5 half_images)"
    by (simp_all add: vgg_model_def vgg_conv_block_ixs_def identity_keras_def three_channels_def
        two_zero_images_def half_images_def numeral_eq_Suc)
  have e: "perceptual_loss_spec (map Flatten (replicate 5 two_zero_images))
       (map Flatten (replicate 5 half_images)) = 15 / 4"
    by (simp add: perceptual_loss_spec_def Flatten_def two_zero_images_def half_images_def
        lessThan_Suc numeral_eq_Suc power2_eq_square)
  from a b c d e show ?thesis by simp
qed

section \<open>The KL loss\<close>














section \<open>Running means of the train steps\<close>














section \<open>The sign of the KL loss\<close>








section \<open>Two evaluation runs\<close>






section \<open>A train step under the fixed configuration\<close>







end
